theory Spec2Isabelle
  imports Main "HOL-Library.Word" "HOL-Library.Sublist"
begin

section \<open>Data model of \<^verbatim>\<open>main.go\<close>\<close>

text \<open>
  Go's \<^verbatim>\<open>int\<close> is taken at its width on 64-bit platforms: a 64-bit two's complement
  integer, whose value \<open>sint\<close> reads. A \<^verbatim>\<open>float64\<close> is its IEEE 754 bit pattern.
  Strings are byte sequences, as in Go.
\<close>

type_synonym go_int = "64 word"

type_synonym float64 = "64 word"

text \<open>
  The comparison \<^verbatim>\<open>f != 0\<close> on a \<^verbatim>\<open>float64\<close>: both zeros (\<open>+0\<close> and \<open>-0\<close>, which
  differ in the sign bit only) compare equal to \<open>0\<close>, every other value differs from it.
\<close>

definition float64_neq_zero :: "float64 \<Rightarrow> bool" where
  "float64_neq_zero f = (f \<noteq> 0x0000000000000000 \<and> f \<noteq> 0x8000000000000000)"

text \<open>\<^verbatim>\<open>const baseURL = "https://berthub.eu/pcode"\<close>\<close>

definition baseURL :: string where
  "baseURL = ''https://berthub.eu/pcode''"

text \<open>\<^verbatim>\<open>type Address struct\<close>\<close>

record Address =
  Street :: string
  HouseNumber :: go_int
  HouseLetter :: string
  HouseSuffix :: string
  City :: string
  PostalCode :: string
  Area :: go_int
  UsagePurposes :: "string list"
  BuildYear :: go_int
  NumberStatus :: string
  Latitude :: float64
  Longitude :: float64
  X :: string
  Y :: string

text \<open>
  The tool result of the protocol library: \<^verbatim>\<open>mcp.CallToolResult\<close> with its \<^verbatim>\<open>Content\<close>
  list of \<^verbatim>\<open>mcp.TextContent\<close> values and its \<^verbatim>\<open>IsError\<close> flag (\<open>False\<close> when the
  literal leaves it out).
\<close>

datatype Content = TextContent (Text: string)

record CallToolResult =
  Content :: "Content list"
  IsError :: bool

text \<open>The part of \<^verbatim>\<open>http.Response\<close> the program reads.\<close>

record Response =
  StatusCode :: go_int
  Body :: string

text \<open>
  What the program takes from outside its own source, as parameters of the model:
  \<^item> \<open>fmtFloat64\<close>: the text \<^verbatim>\<open>fmt.Sprintf("%v", f)\<close> gives for a \<^verbatim>\<open>float64\<close>;
  \<^item> \<open>httpNewRequest\<close>: \<^verbatim>\<open>http.NewRequestWithContext\<close> on a URL, \<open>Some msg\<close> when it
    returns an error;
  \<^item> \<open>httpDo\<close>: \<^verbatim>\<open>http.DefaultClient.Do\<close> on the request for a URL, under the context's
    deadline: an error message (\<open>Inl\<close>) or the response;
  \<^item> \<open>jsonDecode\<close>: \<^verbatim>\<open>json.NewDecoder(body).Decode(&addresses)\<close>: an error message or
    the decoded addresses.
\<close>

record world =
  fmtFloat64 :: "float64 \<Rightarrow> string"
  httpNewRequest :: "string \<Rightarrow> string option"
  httpDo :: "string \<Rightarrow> string + Response"
  jsonDecode :: "string \<Rightarrow> string + Address list"

text \<open>
  The errors the two lookups return, one constructor for each \<^verbatim>\<open>fmt.Errorf\<close> of the
  source; \<open>errorString\<close> is the text of the error (\<^verbatim>\<open>err.Error()\<close>).
\<close>

datatype lookup_error =
    CreateRequestError string
  | MakeRequestError string
  | StatusCodeError go_int
  | ParseError string

section \<open>Library functions on strings and integers\<close>

text \<open>
  \<^verbatim>\<open>strings.ReplaceAll(s, old, new)\<close> for a non-empty \<open>old\<close>: the non-overlapping
  occurrences of \<open>old\<close> are replaced from left to right. (For an empty \<open>old\<close> Go inserts
  \<open>new\<close> around every UTF-8 sequence; the program never calls it so, and the model
  leaves \<open>s\<close> as it is there.)
\<close>

function ReplaceAll :: "string \<Rightarrow> string \<Rightarrow> string \<Rightarrow> string" where
  "ReplaceAll [] old new = []"
| "ReplaceAll (c # cs) old new =
     (if old \<noteq> [] \<and> prefix old (c # cs)
      then new @ ReplaceAll (drop (length old) (c # cs)) old new
      else c # ReplaceAll cs old new)"
  by pat_completeness auto
termination
  by (relation "measure (\<lambda>(s, old, new). length s)") (auto simp: Suc_le_eq)

text \<open>\<^verbatim>\<open>strings.Join(elems, sep)\<close>\<close>

fun Join :: "string list \<Rightarrow> string \<Rightarrow> string" where
  "Join [] sep = []"
| "Join [x] sep = x"
| "Join (x # y # ys) sep = x @ sep @ Join (y # ys) sep"

text \<open>
  \<^verbatim>\<open>strconv.Itoa\<close>, which is also how \<^verbatim>\<open>%v\<close> and \<^verbatim>\<open>%d\<close> print an \<^verbatim>\<open>int\<close>: the decimal
  digits, after a minus sign for a negative number.
\<close>

fun digits :: "nat \<Rightarrow> string" where
  "digits n =
     (if n < 10 then [''0123456789'' ! n]
      else digits (n div 10) @ [''0123456789'' ! (n mod 10)])"

declare digits.simps [simp del]

definition Itoa :: "go_int \<Rightarrow> string" where
  "Itoa i = (if sint i < 0 then ''-'' @ digits (nat (- sint i)) else digits (nat (sint i)))"


fun errorString :: "lookup_error \<Rightarrow> string" where
  "errorString (CreateRequestError err) = ''failed to create request: '' @ err"
| "errorString (MakeRequestError err) = ''failed to make request: '' @ err"
| "errorString (StatusCodeError code) = ''API returned status code '' @ Itoa code"
| "errorString (ParseError err) = ''failed to parse JSON response: '' @ err"

section \<open>The postal-code lookup\<close>

text \<open>
  Line 258 of \<^verbatim>\<open>lookupByPostalCode\<close>:
  \<^verbatim>\<open>postalCode = strings.ReplaceAll(postalCode, " ", "")\<close>
\<close>

definition normalizePostalCode :: "string \<Rightarrow> string" where
  "normalizePostalCode postalCode = ReplaceAll postalCode '' '' ''''"

text \<open>
  Lines 260 to 266: the request URL, from the postal code as normalized above.
  \<^verbatim>\<open>
  requestURL := fmt.Sprintf("%v/%v", baseURL, postalCode)
  if houseNumber != "" {
      requestURL += fmt.Sprintf("/%v", houseNumber)
      if houseLetter != "" {
          requestURL += fmt.Sprintf("/%v", houseLetter)
      }
  }\<close>
\<close>

definition postalCodeRequestURL :: "string \<Rightarrow> string \<Rightarrow> string \<Rightarrow> string" where
  "postalCodeRequestURL postalCode houseNumber houseLetter =
     (let requestURL = baseURL @ ''/'' @ postalCode in
      if houseNumber \<noteq> [] then
        (let requestURL = requestURL @ ''/'' @ houseNumber in
         if houseLetter \<noteq> [] then requestURL @ ''/'' @ houseLetter else requestURL)
      else requestURL)"

text \<open>
  Lines 288 to 290, the loop \<^verbatim>\<open>for i := range addresses { addresses[i].PostalCode = postalCode }\<close>,
  from index \<open>i\<close> on.
\<close>

function setPostalCodes :: "string \<Rightarrow> nat \<Rightarrow> Address list \<Rightarrow> Address list" where
  "setPostalCodes postalCode i addresses =
     (if i < length addresses
      then setPostalCodes postalCode (Suc i)
             (addresses[i := (addresses ! i)\<lparr>PostalCode := postalCode\<rparr>])
      else addresses)"
  by pat_completeness auto
termination
  by (relation "measure (\<lambda>(postalCode, i, addresses). length addresses - i)") auto

declare setPostalCodes.simps [simp del]

definition lookupByPostalCode ::
  "world \<Rightarrow> string \<Rightarrow> string \<Rightarrow> string \<Rightarrow> lookup_error + Address list" where
  "lookupByPostalCode w postalCode houseNumber houseLetter =
     (let postalCode = normalizePostalCode postalCode;
          requestURL = postalCodeRequestURL postalCode houseNumber houseLetter
      in case httpNewRequest w requestURL of
           Some err \<Rightarrow> Inl (CreateRequestError err)
         | None \<Rightarrow>
             (case httpDo w requestURL of
                Inl err \<Rightarrow> Inl (MakeRequestError err)
              | Inr resp \<Rightarrow>
                  if StatusCode resp \<noteq> 200 then Inl (StatusCodeError (StatusCode resp))
                  else
                    (case jsonDecode w (Body resp) of
                       Inl err \<Rightarrow> Inl (ParseError err)
                     | Inr addresses \<Rightarrow> Inr (setPostalCodes postalCode 0 addresses))))"

section \<open>The coordinate lookup\<close>

text \<open>Line 297: \<^verbatim>\<open>requestURL := fmt.Sprintf("%v/%v/%v", baseURL, latitude, longitude)\<close>\<close>

definition coordinatesRequestURL :: "(float64 \<Rightarrow> string) \<Rightarrow> float64 \<Rightarrow> float64 \<Rightarrow> string" where
  "coordinatesRequestURL fmtFloat latitude longitude =
     baseURL @ ''/'' @ fmtFloat latitude @ ''/'' @ fmtFloat longitude"

text \<open>The result is a pointer in the source: \<open>None\<close> is \<^verbatim>\<open>nil\<close>.\<close>

definition lookupByCoordinates ::
  "world \<Rightarrow> float64 \<Rightarrow> float64 \<Rightarrow> lookup_error + Address option" where
  "lookupByCoordinates w latitude longitude =
     (let requestURL = coordinatesRequestURL (fmtFloat64 w) latitude longitude
      in case httpNewRequest w requestURL of
           Some err \<Rightarrow> Inl (CreateRequestError err)
         | None \<Rightarrow>
             (case httpDo w requestURL of
                Inl err \<Rightarrow> Inl (MakeRequestError err)
              | Inr resp \<Rightarrow>
                  if StatusCode resp \<noteq> 200 then Inl (StatusCodeError (StatusCode resp))
                  else
                    (case jsonDecode w (Body resp) of
                       Inl err \<Rightarrow> Inl (ParseError err)
                     | Inr addresses \<Rightarrow>
                         if length addresses = 0 then Inr None
                         else Inr (Some (addresses ! 0)))))"

section \<open>Formatting an address\<close>

text \<open>
  \<^verbatim>\<open>formatAddress\<close> writes to a \<^verbatim>\<open>strings.Builder\<close>. \<open>formatAddressWrites\<close> is the sequence
  of the strings it passes to \<^verbatim>\<open>sb.WriteString\<close>, in order; the result \<^verbatim>\<open>sb.String()\<close> is
  their concatenation. The superscript two of the area line is the two bytes of its UTF-8
  encoding. The first argument is the \<^verbatim>\<open>%v\<close> rendering of a \<^verbatim>\<open>float64\<close>, the only thing
  the function takes from outside.
\<close>

definition houseNumberFull :: "Address \<Rightarrow> string" where
  "houseNumberFull addr =
     (let houseNumberFull = Itoa (HouseNumber addr);
          houseNumberFull =
            (if HouseLetter addr \<noteq> [] then houseNumberFull @ HouseLetter addr
             else houseNumberFull);
          houseNumberFull =
            (if HouseSuffix addr \<noteq> [] then houseNumberFull @ ''-'' @ HouseSuffix addr
             else houseNumberFull)
      in houseNumberFull)"

definition formatAddressWrites :: "(float64 \<Rightarrow> string) \<Rightarrow> Address \<Rightarrow> string list" where
  "formatAddressWrites fmtFloat addr =
     [''  Street: '' @ Street addr @ ''\<newline>'',
      ''  House Number: '' @ houseNumberFull addr @ ''\<newline>'',
      ''  Postal Code: '' @ PostalCode addr @ ''\<newline>'',
      ''  City: '' @ City addr @ ''\<newline>'']
     @ (if Area addr \<noteq> 0
        then [''  Area: '' @ Itoa (Area addr) @ '' m'' @ [CHR 0xC2, CHR 0xB2] @ ''\<newline>'']
        else [])
     @ (if length (UsagePurposes addr) > 0
        then [''  Usage Purposes: '' @ Join (UsagePurposes addr) '', '' @ ''\<newline>'']
        else [])
     @ (if BuildYear addr \<noteq> 0
        then [''  Build Year: '' @ Itoa (BuildYear addr) @ ''\<newline>'']
        else [])
     @ (if float64_neq_zero (Latitude addr) \<and> float64_neq_zero (Longitude addr)
        then [''  Coordinates (WGS84): '' @ fmtFloat (Latitude addr) @ '', ''
                @ fmtFloat (Longitude addr) @ ''\<newline>'']
        else [])
     @ (if X addr \<noteq> [] \<and> Y addr \<noteq> []
        then [''  Coordinates (Dutch Grid): '' @ X addr @ '', '' @ Y addr @ ''\<newline>'']
        else [])
     @ [''\<newline>'']"

definition formatAddress :: "(float64 \<Rightarrow> string) \<Rightarrow> Address \<Rightarrow> string" where
  "formatAddress fmtFloat addr = concat (formatAddressWrites fmtFloat addr)"

section \<open>The tool handlers\<close>

text \<open>The argument structs of \<^verbatim>\<open>registerPostalCodeTools\<close>.\<close>

record lookupByPostalCodeArgs =
  argPostalCode :: string
  argHouseNumber :: string
  argHouseLetter :: string

record lookupByCoordinatesArgs =
  argLatitude :: float64
  argLongitude :: float64

text \<open>The \<^verbatim>\<open>HandleFunc\<close> of the tool \<^verbatim>\<open>lookup_by_postal_code\<close>.\<close>

definition lookupByPostalCodeHandler :: "world \<Rightarrow> lookupByPostalCodeArgs \<Rightarrow> CallToolResult" where
  "lookupByPostalCodeHandler w args =
     (case lookupByPostalCode w (argPostalCode args) (argHouseNumber args) (argHouseLetter args) of
        Inl err \<Rightarrow>
          \<lparr>Content = [TextContent (''Error looking up postal code: '' @ errorString err)],
           IsError = True\<rparr>
      | Inr addresses \<Rightarrow>
          if length addresses = 0
          then \<lparr>Content = [TextContent ''No addresses found for the given postal code.''],
                IsError = False\<rparr>
          else \<lparr>Content = map (\<lambda>addr. TextContent (formatAddress (fmtFloat64 w) addr)) addresses,
                IsError = False\<rparr>)"

text \<open>The \<^verbatim>\<open>HandleFunc\<close> of the tool \<^verbatim>\<open>lookup_by_coordinates\<close>.\<close>

definition lookupByCoordinatesHandler :: "world \<Rightarrow> lookupByCoordinatesArgs \<Rightarrow> CallToolResult" where
  "lookupByCoordinatesHandler w args =
     (case lookupByCoordinates w (argLatitude args) (argLongitude args) of
        Inl err \<Rightarrow>
          \<lparr>Content = [TextContent (''Error looking up coordinates: '' @ errorString err)],
           IsError = True\<rparr>
      | Inr None \<Rightarrow>
          \<lparr>Content = [TextContent ''No address found for the given coordinates.''],
           IsError = False\<rparr>
      | Inr (Some address) \<Rightarrow>
          \<lparr>Content = [TextContent (formatAddress (fmtFloat64 w) address)], IsError = False\<rparr>)"

section \<open>Vocabulary of the properties\<close>

text \<open>
  The request path is what the program appends to \<open>baseURL\<close>; its segments are the
  pieces between the slashes (the path starts with a slash, so the empty piece before
  it is dropped).
\<close>

definition requestPath :: "string \<Rightarrow> string" where
  "requestPath requestURL = drop (length baseURL) requestURL"


text \<open>
  A line with a given label is emitted when one of the strings written to the builder
  starts with the label.
\<close>

definition emitsLine :: "string \<Rightarrow> string list \<Rightarrow> bool" where
  "emitsLine label writes = list_ex (prefix label) writes"

text \<open>The decoded addresses, each with the postal code field replaced.\<close>

definition withPostalCode :: "string \<Rightarrow> Address list \<Rightarrow> Address list" where
  "withPostalCode postalCode addresses = map (\<lambda>addr. addr\<lparr>PostalCode := postalCode\<rparr>) addresses"

section \<open>Example inputs\<close>

text \<open>
  The \<^verbatim>\<open>%v\<close> rendering of the three \<^verbatim>\<open>float64\<close> values of the examples: \<open>52\<close>
  (\<open>0x404A000000000000\<close>), \<open>4.3\<close> (\<open>0x4011333333333333\<close>) and \<open>0\<close>. The examples render no
  other value.
\<close>

definition exampleFmtFloat64 :: "float64 \<Rightarrow> string" where
  "exampleFmtFloat64 f =
     (if f = 0x404A000000000000 then ''52''
      else if f = 0x4011333333333333 then ''4.3''
      else if f = 0 then ''0''
      else ''?'')"

text \<open>
  A world in which every request is created and answered, with a given status code, and
  the body decodes to a given result.
\<close>

definition exampleWorld :: "go_int \<Rightarrow> string + Address list \<Rightarrow> world" where
  "exampleWorld status decoded =
     \<lparr>fmtFloat64 = exampleFmtFloat64,
      httpNewRequest = (\<lambda>requestURL. None),
      httpDo = (\<lambda>requestURL. Inr \<lparr>StatusCode = status, Body = ''...''\<rparr>),
      jsonDecode = (\<lambda>body. decoded)\<rparr>"

definition exampleAddress :: Address where
  "exampleAddress =
     \<lparr>Street = ''Binnenhof'', HouseNumber = 1, HouseLetter = ''A'', HouseSuffix = [],
      City = ''Den Haag'', PostalCode = ''2513 AA'', Area = 0, UsagePurposes = [],
      BuildYear = 0, NumberStatus = ''Naamgeving uitgegeven'',
      Latitude = 0x404A000000000000, Longitude = 0x4011333333333333, X = [], Y = []\<rparr>"

definition otherAddress :: Address where
  "otherAddress =
     \<lparr>Street = ''Plein'', HouseNumber = 23, HouseLetter = [], HouseSuffix = ''2'',
      City = ''Den Haag'', PostalCode = ''2511CS'', Area = 120,
      UsagePurposes = [''woonfunctie'', ''kantoorfunctie''],
      BuildYear = 1930, NumberStatus = ''Naamgeving uitgegeven'',
      Latitude = 0, Longitude = 0x4011333333333333, X = ''81431'', Y = ''455034''\<rparr>"

section \<open>The JSON decoder on bodies that hold no array of addresses\<close>

text \<open>
  The white space of JSON, as the scanner of \<^verbatim>\<open>encoding/json\<close> has it: space, tab,
  carriage return and line feed.
\<close>

definition isSpace :: "char \<Rightarrow> bool" where
  "isSpace c = (c = CHR '' '' \<or> c = CHR 0x09 \<or> c = CHR 0x0D \<or> c = CHR 0x0A)"

text \<open>
  A JSON text that is an array is delimited by brackets, white space aside. A body that
  is not delimited so is not valid JSON for an array of address records, whatever else
  that asks of it.
\<close>

definition arrayDelimited :: "string \<Rightarrow> bool" where
  "arrayDelimited body =
     (let t = rev (dropWhile isSpace (rev (dropWhile isSpace body)))
      in t \<noteq> [] \<and> hd t = CHR ''['' \<and> last t = CHR '']'')"

text \<open>
  What \<^verbatim>\<open>json.NewDecoder(body).Decode(&addresses)\<close> returns on two kinds of body. It reads
  the first JSON value of the stream and nothing after it. When that value is an array
  with no element, the slice is empty and no error is returned, whatever follows the
  closing bracket. When the body is the value \<^verbatim>\<open>null\<close>, the slice is left \<^verbatim>\<open>nil\<close>, whose
  length is \<open>0\<close>, and no error is returned. Every other body is outside this description
  (\<open>None\<close>).
\<close>

definition decodeEmptyValue :: "string \<Rightarrow> (string + Address list) option" where
  "decodeEmptyValue body =
     (let s = dropWhile isSpace body in
      if take 4 s = ''null'' \<and> list_all isSpace (drop 4 s) then Some (Inr [])
      else if s \<noteq> [] \<and> hd s = CHR ''[''
              \<and> (let r = dropWhile isSpace (tl s) in r \<noteq> [] \<and> hd r = CHR '']'')
      then Some (Inr [])
      else None)"

text \<open>
  A world in which every request is created and answered with a given status code and
  body, and the decoder is the one above. The examples give it no body outside the two
  kinds described.
\<close>

definition bodyWorld :: "go_int \<Rightarrow> string \<Rightarrow> world" where
  "bodyWorld status body =
     \<lparr>fmtFloat64 = exampleFmtFloat64,
      httpNewRequest = (\<lambda>requestURL. None),
      httpDo = (\<lambda>requestURL. Inr \<lparr>StatusCode = status, Body = body\<rparr>),
      jsonDecode = (\<lambda>body. case decodeEmptyValue body of
                             Some result \<Rightarrow> result
                           | None \<Rightarrow> Inl ''not described'')\<rparr>"

section \<open>Normalization of the postal code\<close>

lemma ReplaceAll_space: "ReplaceAll s '' '' [] = filter (\<lambda>c. c \<noteq> CHR '' '') s"
  by (induction s) auto

text \<open>
  Claim C5. For every input string, normalization removes exactly the space characters
  and nothing else: the result is the input with its spaces filtered out, so a postal code
  with spaces normalizes to the same string as the space-free one (\<open>1234 AB\<close> gives
  \<open>1234AB\<close>); normalizing twice is normalizing once, and a string without spaces is left
  unchanged.
\<close>

theorem normalizePostalCode_removes_spaces:
  "normalizePostalCode s = filter (\<lambda>c. c \<noteq> CHR '' '') s
   \<and> normalizePostalCode ''1234 AB'' = ''1234AB''
   \<and> normalizePostalCode (filter (\<lambda>c. c \<noteq> CHR '' '') s) = normalizePostalCode s
   \<and> normalizePostalCode (normalizePostalCode s) = normalizePostalCode s
   \<and> (CHR '' '' \<notin> set s \<longrightarrow> normalizePostalCode s = s)"
proof -
  have "normalizePostalCode t = filter (\<lambda>c. c \<noteq> CHR '' '') t" for t
    by (simp add: normalizePostalCode_def ReplaceAll_space)
  then show ?thesis
    by (auto simp: filter_id_conv)
qed

theorem normalizePostalCode_removes_spaces_witness:
  "CHR '' '' \<notin> set ''1234AB'' \<and> normalizePostalCode ''1234AB'' = ''1234AB''"
  using normalizePostalCode_removes_spaces [of "''1234AB''"]
  by simp

section \<open>The loop over the decoded addresses\<close>

lemma setPostalCodes_step:
  "i < length addresses \<Longrightarrow> setPostalCodes postalCode i addresses =
     setPostalCodes postalCode (Suc i) (addresses[i := (addresses ! i)\<lparr>PostalCode := postalCode\<rparr>])"
  by (subst setPostalCodes.simps) simp

lemma setPostalCodes_done:
  "\<not> i < length addresses \<Longrightarrow> setPostalCodes postalCode i addresses = addresses"
  by (subst setPostalCodes.simps) simp

lemma setPostalCodes_from:
  "setPostalCodes postalCode i addresses =
     take i addresses @ withPostalCode postalCode (drop i addresses)"
proof (induction postalCode i addresses rule: setPostalCodes.induct)
  case (1 postalCode i addresses)
  show ?case
  proof (cases "i < length addresses")
    case True
    let ?v = "(addresses ! i)\<lparr>PostalCode := postalCode\<rparr>"
    have d: "drop i addresses = addresses ! i # drop (Suc i) addresses"
      using True by (simp add: Cons_nth_drop_Suc)
    have t: "take (Suc i) (addresses[i := ?v]) = take i addresses @ [?v]"
      using True by (simp add: take_Suc_conv_app_nth)
    have e: "drop (Suc i) (addresses[i := ?v]) = drop (Suc i) addresses"
      by simp
    have w: "withPostalCode postalCode (drop i addresses) =
        ?v # withPostalCode postalCode (drop (Suc i) addresses)"
      by (subst d) (simp add: withPostalCode_def)
    have "setPostalCodes postalCode i addresses =
        setPostalCodes postalCode (Suc i) (addresses[i := ?v])"
      using True by (rule setPostalCodes_step)
    also have "\<dots> = take (Suc i) (addresses[i := ?v])
        @ withPostalCode postalCode (drop (Suc i) (addresses[i := ?v]))"
      by (rule "1.IH" [OF True])
    also have "\<dots> = take i addresses @ withPostalCode postalCode (drop i addresses)"
      by (simp only: t e w append_assoc append_Cons append_Nil)
    finally show ?thesis .
  next
    case False
    then show ?thesis
      by (simp add: setPostalCodes_done withPostalCode_def)
  qed
qed

lemma setPostalCodes_all:
  "setPostalCodes postalCode 0 addresses = withPostalCode postalCode addresses"
  by (simp add: setPostalCodes_from)

section \<open>Results of the postal-code lookup\<close>

lemma lookupByPostalCode_Inr:
  assumes "lookupByPostalCode w postalCode houseNumber houseLetter = Inr addresses"
  shows "\<exists>resp decoded.
           httpDo w (postalCodeRequestURL (normalizePostalCode postalCode) houseNumber houseLetter) = Inr resp
         \<and> StatusCode resp = 200
         \<and> jsonDecode w (Body resp) = Inr decoded
         \<and> addresses = withPostalCode (normalizePostalCode postalCode) decoded"
  using assms
  by (auto simp: lookupByPostalCode_def Let_def setPostalCodes_all
      split: option.splits sum.splits if_splits)

text \<open>
  Claim C1. When a postal-code lookup succeeds, every address of the returned list has its
  \<open>PostalCode\<close> field equal to the normalized input postal code, whatever the decoded
  JSON held there: the returned list is the decoded list with that one field replaced.
\<close>

theorem lookupByPostalCode_overwrites_postalCode:
  assumes "lookupByPostalCode w postalCode houseNumber houseLetter = Inr addresses"
  shows "(\<forall>addr \<in> set addresses. PostalCode addr = normalizePostalCode postalCode)
       \<and> (\<exists>resp decoded.
             httpDo w (postalCodeRequestURL (normalizePostalCode postalCode) houseNumber houseLetter)
               = Inr resp
           \<and> jsonDecode w (Body resp) = Inr decoded
           \<and> addresses = withPostalCode (normalizePostalCode postalCode) decoded)"
proof -
  from lookupByPostalCode_Inr [OF assms] obtain resp decoded where
    r: "httpDo w (postalCodeRequestURL (normalizePostalCode postalCode) houseNumber houseLetter)
          = Inr resp"
    and d: "jsonDecode w (Body resp) = Inr decoded"
    and a: "addresses = withPostalCode (normalizePostalCode postalCode) decoded"
    by blast
  have "\<forall>addr \<in> set addresses. PostalCode addr = normalizePostalCode postalCode"
    unfolding a withPostalCode_def by simp
  with r d a show ?thesis by blast
qed

lemma example_lookup:
  "lookupByPostalCode (exampleWorld 200 (Inr [exampleAddress, otherAddress])) ''2513 AA'' ''1'' []
     = Inr [exampleAddress\<lparr>PostalCode := ''2513AA''\<rparr>, otherAddress\<lparr>PostalCode := ''2513AA''\<rparr>]"
  by (simp add: lookupByPostalCode_def exampleWorld_def Let_def setPostalCodes_all withPostalCode_def
      normalizePostalCode_def ReplaceAll_space)

theorem lookupByPostalCode_overwrites_postalCode_witness:
  "lookupByPostalCode (exampleWorld 200 (Inr [exampleAddress, otherAddress])) ''2513 AA'' ''1'' []
     = Inr [exampleAddress\<lparr>PostalCode := ''2513AA''\<rparr>, otherAddress\<lparr>PostalCode := ''2513AA''\<rparr>]
   \<and> PostalCode exampleAddress = ''2513 AA'' \<and> PostalCode otherAddress = ''2511CS''
   \<and> PostalCode (exampleAddress\<lparr>PostalCode := ''2513AA''\<rparr>) = normalizePostalCode ''2513 AA''
   \<and> PostalCode (otherAddress\<lparr>PostalCode := ''2513AA''\<rparr>) = normalizePostalCode ''2513 AA''"
  using lookupByPostalCode_overwrites_postalCode [OF example_lookup] example_lookup
  by (simp add: exampleAddress_def otherAddress_def)

section \<open>Outcomes of a completed exchange\<close>

lemma lookupByPostalCode_completed:
  assumes "httpNewRequest w (postalCodeRequestURL (normalizePostalCode postalCode) houseNumber houseLetter) = None"
    and "httpDo w (postalCodeRequestURL (normalizePostalCode postalCode) houseNumber houseLetter) = Inr resp"
  shows "lookupByPostalCode w postalCode houseNumber houseLetter =
     (if StatusCode resp \<noteq> 200 then Inl (StatusCodeError (StatusCode resp))
      else case jsonDecode w (Body resp) of
             Inl err \<Rightarrow> Inl (ParseError err)
           | Inr addresses \<Rightarrow> Inr (withPostalCode (normalizePostalCode postalCode) addresses))"
  using assms by (simp add: lookupByPostalCode_def Let_def setPostalCodes_all split: sum.splits)

lemma lookupByCoordinates_completed:
  assumes "httpNewRequest w (coordinatesRequestURL (fmtFloat64 w) latitude longitude) = None"
    and "httpDo w (coordinatesRequestURL (fmtFloat64 w) latitude longitude) = Inr resp"
  shows "lookupByCoordinates w latitude longitude =
     (if StatusCode resp \<noteq> 200 then Inl (StatusCodeError (StatusCode resp))
      else case jsonDecode w (Body resp) of
             Inl err \<Rightarrow> Inl (ParseError err)
           | Inr addresses \<Rightarrow> Inr (if addresses = [] then None else Some (hd addresses)))"
  using assms by (auto simp: lookupByCoordinates_def Let_def hd_conv_nth split: sum.splits)

text \<open>
  Claim C2. For a coordinate lookup whose response (status 200) decodes to a list of
  addresses: if the list is not empty, the tool result holds exactly one text block, the
  formatted first address, and is not an error; if the list is empty, the tool result is
  the message that no address was found, and is not an error.
\<close>

theorem lookupByCoordinatesHandler_first_or_none:
  assumes "httpNewRequest w (coordinatesRequestURL (fmtFloat64 w) (argLatitude args) (argLongitude args)) = None"
    and "httpDo w (coordinatesRequestURL (fmtFloat64 w) (argLatitude args) (argLongitude args)) = Inr resp"
    and "StatusCode resp = 200"
    and "jsonDecode w (Body resp) = Inr addresses"
  shows "lookupByCoordinatesHandler w args =
     (if length addresses = 0
      then \<lparr>Content = [TextContent ''No address found for the given coordinates.''],
            IsError = False\<rparr>
      else \<lparr>Content = [TextContent (formatAddress (fmtFloat64 w) (hd addresses))],
            IsError = False\<rparr>)"
  using lookupByCoordinates_completed [OF assms(1,2)] assms(3,4)
  by (simp add: lookupByCoordinatesHandler_def)

lemma exampleWorld_simps:
  "fmtFloat64 (exampleWorld status decoded) = exampleFmtFloat64"
  "httpNewRequest (exampleWorld status decoded) requestURL = None"
  "httpDo (exampleWorld status decoded) requestURL = Inr \<lparr>StatusCode = status, Body = ''...''\<rparr>"
  "jsonDecode (exampleWorld status decoded) body = decoded"
  by (simp_all add: exampleWorld_def)

lemma formatAddress_exampleAddress:
  "formatAddress exampleFmtFloat64 exampleAddress =
     ''  Street: Binnenhof\<newline>  House Number: 1A\<newline>  Postal Code: 2513 AA\<newline>  City: Den Haag\<newline>  Coordinates (WGS84): 52, 4.3\<newline>\<newline>''"
  by (simp add: formatAddress_def formatAddressWrites_def exampleAddress_def houseNumberFull_def
      Itoa_def digits.simps float64_neq_zero_def exampleFmtFloat64_def)

theorem lookupByCoordinatesHandler_first_or_none_witness:
  "lookupByCoordinatesHandler (exampleWorld 200 (Inr [exampleAddress, otherAddress]))
      \<lparr>argLatitude = 0x404A000000000000, argLongitude = 0x4011333333333333\<rparr> =
     \<lparr>Content = [TextContent ''  Street: Binnenhof\<newline>  House Number: 1A\<newline>  Postal Code: 2513 AA\<newline>  City: Den Haag\<newline>  Coordinates (WGS84): 52, 4.3\<newline>\<newline>''],
      IsError = False\<rparr>
   \<and> lookupByCoordinatesHandler (exampleWorld 200 (Inr []))
      \<lparr>argLatitude = 0x404A000000000000, argLongitude = 0x4011333333333333\<rparr> =
     \<lparr>Content = [TextContent ''No address found for the given coordinates.''], IsError = False\<rparr>"
  using lookupByCoordinatesHandler_first_or_none
      [of "exampleWorld 200 (Inr [exampleAddress, otherAddress])"
          "\<lparr>argLatitude = 0x404A000000000000, argLongitude = 0x4011333333333333\<rparr>"
          "\<lparr>StatusCode = 200, Body = ''...''\<rparr>" "[exampleAddress, otherAddress]"]
    lookupByCoordinatesHandler_first_or_none
      [of "exampleWorld 200 (Inr [])"
          "\<lparr>argLatitude = 0x404A000000000000, argLongitude = 0x4011333333333333\<rparr>"
          "\<lparr>StatusCode = 200, Body = ''...''\<rparr>" "[]"]
  by (simp add: exampleWorld_simps formatAddress_exampleAddress)

lemma lookupByPostalCode_failure:
  assumes "httpNewRequest w (postalCodeRequestURL (normalizePostalCode (argPostalCode pargs))
        (argHouseNumber pargs) (argHouseLetter pargs)) = None"
    and "httpDo w (postalCodeRequestURL (normalizePostalCode (argPostalCode pargs))
        (argHouseNumber pargs) (argHouseLetter pargs)) = Inr resp"
  shows "(isl (lookupByPostalCode w (argPostalCode pargs) (argHouseNumber pargs) (argHouseLetter pargs))
         \<longleftrightarrow> StatusCode resp \<noteq> 200 \<or> isl (jsonDecode w (Body resp)))
    \<and> (StatusCode resp \<noteq> 200 \<longrightarrow>
         lookupByPostalCode w (argPostalCode pargs) (argHouseNumber pargs) (argHouseLetter pargs)
           = Inl (StatusCodeError (StatusCode resp))
       \<and> lookupByPostalCodeHandler w pargs =
           \<lparr>Content = [TextContent (''Error looking up postal code: API returned status code ''
                          @ Itoa (StatusCode resp))],
            IsError = True\<rparr>)
    \<and> (\<forall>err. StatusCode resp = 200 \<and> jsonDecode w (Body resp) = Inl err \<longrightarrow>
         lookupByPostalCode w (argPostalCode pargs) (argHouseNumber pargs) (argHouseLetter pargs)
           = Inl (ParseError err)
       \<and> lookupByPostalCodeHandler w pargs =
           \<lparr>Content = [TextContent (''Error looking up postal code: failed to parse JSON response: ''
                          @ err)],
            IsError = True\<rparr>)
    \<and> (IsError (lookupByPostalCodeHandler w pargs)
         \<longleftrightarrow> StatusCode resp \<noteq> 200 \<or> isl (jsonDecode w (Body resp)))"
  using lookupByPostalCode_completed [OF assms]
  by (simp add: lookupByPostalCodeHandler_def split: sum.splits)

lemma lookupByCoordinates_failure:
  assumes "httpNewRequest w (coordinatesRequestURL (fmtFloat64 w) (argLatitude cargs) (argLongitude cargs)) = None"
    and "httpDo w (coordinatesRequestURL (fmtFloat64 w) (argLatitude cargs) (argLongitude cargs)) = Inr resp"
  shows "(isl (lookupByCoordinates w (argLatitude cargs) (argLongitude cargs))
         \<longleftrightarrow> StatusCode resp \<noteq> 200 \<or> isl (jsonDecode w (Body resp)))
    \<and> (StatusCode resp \<noteq> 200 \<longrightarrow>
         lookupByCoordinates w (argLatitude cargs) (argLongitude cargs)
           = Inl (StatusCodeError (StatusCode resp))
       \<and> lookupByCoordinatesHandler w cargs =
           \<lparr>Content = [TextContent (''Error looking up coordinates: API returned status code ''
                          @ Itoa (StatusCode resp))],
            IsError = True\<rparr>)
    \<and> (\<forall>err. StatusCode resp = 200 \<and> jsonDecode w (Body resp) = Inl err \<longrightarrow>
         lookupByCoordinates w (argLatitude cargs) (argLongitude cargs) = Inl (ParseError err)
       \<and> lookupByCoordinatesHandler w cargs =
           \<lparr>Content = [TextContent (''Error looking up coordinates: failed to parse JSON response: ''
                          @ err)],
            IsError = True\<rparr>)
    \<and> (IsError (lookupByCoordinatesHandler w cargs)
         \<longleftrightarrow> StatusCode resp \<noteq> 200 \<or> isl (jsonDecode w (Body resp)))"
  using lookupByCoordinates_completed [OF assms]
  by (simp add: lookupByCoordinatesHandler_def split: sum.splits)

text \<open>
  Claim C3, as the code has it. For either lookup, when the request is created and the
  exchange returns a response: the lookup fails exactly when the status code is not 200 or
  the JSON decoder returns an error on the body; a status other than 200 gives the error
  that carries the status code, whose text ends with the code in decimal; an error of the
  decoder (under status 200) gives the parse error; and the handler returns a tool result
  marked as an error, with the text of the error, exactly when the lookup fails. Whether
  the body is valid JSON for an array of address records is not what decides: the decoder's
  result is.
\<close>

theorem lookup_fails_iff_status_or_decode:
  "(httpNewRequest w (postalCodeRequestURL (normalizePostalCode (argPostalCode pargs))
        (argHouseNumber pargs) (argHouseLetter pargs)) = None
    \<and> httpDo w (postalCodeRequestURL (normalizePostalCode (argPostalCode pargs))
        (argHouseNumber pargs) (argHouseLetter pargs)) = Inr resp
    \<longrightarrow>
      (isl (lookupByPostalCode w (argPostalCode pargs) (argHouseNumber pargs) (argHouseLetter pargs))
         \<longleftrightarrow> StatusCode resp \<noteq> 200 \<or> isl (jsonDecode w (Body resp)))
    \<and> (StatusCode resp \<noteq> 200 \<longrightarrow>
         lookupByPostalCode w (argPostalCode pargs) (argHouseNumber pargs) (argHouseLetter pargs)
           = Inl (StatusCodeError (StatusCode resp))
       \<and> lookupByPostalCodeHandler w pargs =
           \<lparr>Content = [TextContent (''Error looking up postal code: API returned status code ''
                          @ Itoa (StatusCode resp))],
            IsError = True\<rparr>)
    \<and> (\<forall>err. StatusCode resp = 200 \<and> jsonDecode w (Body resp) = Inl err \<longrightarrow>
         lookupByPostalCode w (argPostalCode pargs) (argHouseNumber pargs) (argHouseLetter pargs)
           = Inl (ParseError err)
       \<and> lookupByPostalCodeHandler w pargs =
           \<lparr>Content = [TextContent (''Error looking up postal code: failed to parse JSON response: ''
                          @ err)],
            IsError = True\<rparr>)
    \<and> (IsError (lookupByPostalCodeHandler w pargs)
         \<longleftrightarrow> StatusCode resp \<noteq> 200 \<or> isl (jsonDecode w (Body resp))))
   \<and>
   (httpNewRequest w (coordinatesRequestURL (fmtFloat64 w) (argLatitude cargs) (argLongitude cargs)) = None
    \<and> httpDo w (coordinatesRequestURL (fmtFloat64 w) (argLatitude cargs) (argLongitude cargs)) = Inr resp
    \<longrightarrow>
      (isl (lookupByCoordinates w (argLatitude cargs) (argLongitude cargs))
         \<longleftrightarrow> StatusCode resp \<noteq> 200 \<or> isl (jsonDecode w (Body resp)))
    \<and> (StatusCode resp \<noteq> 200 \<longrightarrow>
         lookupByCoordinates w (argLatitude cargs) (argLongitude cargs)
           = Inl (StatusCodeError (StatusCode resp))
       \<and> lookupByCoordinatesHandler w cargs =
           \<lparr>Content = [TextContent (''Error looking up coordinates: API returned status code ''
                          @ Itoa (StatusCode resp))],
            IsError = True\<rparr>)
    \<and> (\<forall>err. StatusCode resp = 200 \<and> jsonDecode w (Body resp) = Inl err \<longrightarrow>
         lookupByCoordinates w (argLatitude cargs) (argLongitude cargs) = Inl (ParseError err)
       \<and> lookupByCoordinatesHandler w cargs =
           \<lparr>Content = [TextContent (''Error looking up coordinates: failed to parse JSON response: ''
                          @ err)],
            IsError = True\<rparr>)
    \<and> (IsError (lookupByCoordinatesHandler w cargs)
         \<longleftrightarrow> StatusCode resp \<noteq> 200 \<or> isl (jsonDecode w (Body resp))))"
proof (rule conjI)
  show "httpNewRequest w (postalCodeRequestURL (normalizePostalCode (argPostalCode pargs))
        (argHouseNumber pargs) (argHouseLetter pargs)) = None
    \<and> httpDo w (postalCodeRequestURL (normalizePostalCode (argPostalCode pargs))
        (argHouseNumber pargs) (argHouseLetter pargs)) = Inr resp
    \<longrightarrow>
      (isl (lookupByPostalCode w (argPostalCode pargs) (argHouseNumber pargs) (argHouseLetter pargs))
         \<longleftrightarrow> StatusCode resp \<noteq> 200 \<or> isl (jsonDecode w (Body resp)))
    \<and> (StatusCode resp \<noteq> 200 \<longrightarrow>
         lookupByPostalCode w (argPostalCode pargs) (argHouseNumber pargs) (argHouseLetter pargs)
           = Inl (StatusCodeError (StatusCode resp))
       \<and> lookupByPostalCodeHandler w pargs =
           \<lparr>Content = [TextContent (''Error looking up postal code: API returned status code ''
                          @ Itoa (StatusCode resp))],
            IsError = True\<rparr>)
    \<and> (\<forall>err. StatusCode resp = 200 \<and> jsonDecode w (Body resp) = Inl err \<longrightarrow>
         lookupByPostalCode w (argPostalCode pargs) (argHouseNumber pargs) (argHouseLetter pargs)
           = Inl (ParseError err)
       \<and> lookupByPostalCodeHandler w pargs =
           \<lparr>Content = [TextContent (''Error looking up postal code: failed to parse JSON response: ''
                          @ err)],
            IsError = True\<rparr>)
    \<and> (IsError (lookupByPostalCodeHandler w pargs)
         \<longleftrightarrow> StatusCode resp \<noteq> 200 \<or> isl (jsonDecode w (Body resp)))"
    by (rule impI, elim conjE, rule lookupByPostalCode_failure)
next
  show "httpNewRequest w (coordinatesRequestURL (fmtFloat64 w) (argLatitude cargs) (argLongitude cargs)) = None
    \<and> httpDo w (coordinatesRequestURL (fmtFloat64 w) (argLatitude cargs) (argLongitude cargs)) = Inr resp
    \<longrightarrow>
      (isl (lookupByCoordinates w (argLatitude cargs) (argLongitude cargs))
         \<longleftrightarrow> StatusCode resp \<noteq> 200 \<or> isl (jsonDecode w (Body resp)))
    \<and> (StatusCode resp \<noteq> 200 \<longrightarrow>
         lookupByCoordinates w (argLatitude cargs) (argLongitude cargs)
           = Inl (StatusCodeError (StatusCode resp))
       \<and> lookupByCoordinatesHandler w cargs =
           \<lparr>Content = [TextContent (''Error looking up coordinates: API returned status code ''
                          @ Itoa (StatusCode resp))],
            IsError = True\<rparr>)
    \<and> (\<forall>err. StatusCode resp = 200 \<and> jsonDecode w (Body resp) = Inl err \<longrightarrow>
         lookupByCoordinates w (argLatitude cargs) (argLongitude cargs) = Inl (ParseError err)
       \<and> lookupByCoordinatesHandler w cargs =
           \<lparr>Content = [TextContent (''Error looking up coordinates: failed to parse JSON response: ''
                          @ err)],
            IsError = True\<rparr>)
    \<and> (IsError (lookupByCoordinatesHandler w cargs)
         \<longleftrightarrow> StatusCode resp \<noteq> 200 \<or> isl (jsonDecode w (Body resp)))"
    by (rule impI, elim conjE, rule lookupByCoordinates_failure)
qed

lemma Itoa_500: "Itoa 500 = ''500''"
  by (simp add: Itoa_def digits.simps)

theorem lookup_fails_iff_status_or_decode_witness:
  "lookupByPostalCodeHandler (exampleWorld 500 (Inr [exampleAddress]))
      \<lparr>argPostalCode = ''2513 AA'', argHouseNumber = ''1'', argHouseLetter = ''A''\<rparr> =
     \<lparr>Content = [TextContent ''Error looking up postal code: API returned status code 500''],
      IsError = True\<rparr>
   \<and> lookupByCoordinatesHandler (exampleWorld 500 (Inr [exampleAddress]))
      \<lparr>argLatitude = 0x404A000000000000, argLongitude = 0x4011333333333333\<rparr> =
     \<lparr>Content = [TextContent ''Error looking up coordinates: API returned status code 500''],
      IsError = True\<rparr>
   \<and> lookupByPostalCodeHandler (exampleWorld 200 (Inl ''unexpected EOF''))
      \<lparr>argPostalCode = ''2513 AA'', argHouseNumber = ''1'', argHouseLetter = ''A''\<rparr> =
     \<lparr>Content = [TextContent ''Error looking up postal code: failed to parse JSON response: unexpected EOF''],
      IsError = True\<rparr>
   \<and> \<not> IsError (lookupByPostalCodeHandler (exampleWorld 200 (Inr [exampleAddress]))
      \<lparr>argPostalCode = ''2513 AA'', argHouseNumber = ''1'', argHouseLetter = ''A''\<rparr>)"
  using lookup_fails_iff_status_or_decode
      [of "exampleWorld 500 (Inr [exampleAddress])"
          "\<lparr>argPostalCode = ''2513 AA'', argHouseNumber = ''1'', argHouseLetter = ''A''\<rparr>"
          "\<lparr>StatusCode = 500, Body = ''...''\<rparr>"
          "\<lparr>argLatitude = 0x404A000000000000, argLongitude = 0x4011333333333333\<rparr>"]
    lookup_fails_iff_status_or_decode
      [of "exampleWorld 200 (Inl ''unexpected EOF'')"
          "\<lparr>argPostalCode = ''2513 AA'', argHouseNumber = ''1'', argHouseLetter = ''A''\<rparr>"
          "\<lparr>StatusCode = 200, Body = ''...''\<rparr>"
          "\<lparr>argLatitude = 0x404A000000000000, argLongitude = 0x4011333333333333\<rparr>"]
    lookup_fails_iff_status_or_decode
      [of "exampleWorld 200 (Inr [exampleAddress])"
          "\<lparr>argPostalCode = ''2513 AA'', argHouseNumber = ''1'', argHouseLetter = ''A''\<rparr>"
          "\<lparr>StatusCode = 200, Body = ''...''\<rparr>"
          "\<lparr>argLatitude = 0x404A000000000000, argLongitude = 0x4011333333333333\<rparr>"]
  by (simp add: exampleWorld_simps Itoa_500)

text \<open>
  The claim as the specification states it (a completed lookup fails exactly when the
  status is not 200 or the body is not valid JSON for an array of address records) fails
  for the bodies \<open>[] garbage\<close> and \<open>null\<close> under status 200. Neither is a JSON array:
  the first is not delimited by brackets, the second is another value. The decoder reads
  the empty array and stops, or leaves the slice \<^verbatim>\<open>nil\<close>, and returns no error: both
  lookups succeed with no address, and the tool results are not marked as errors.
\<close>

theorem lookup_fails_iff_status_or_decode_counterexample:
  "\<not> arrayDelimited ''[] garbage'' \<and> \<not> arrayDelimited ''null''
   \<and> httpNewRequest (bodyWorld 200 ''[] garbage'')
        (postalCodeRequestURL (normalizePostalCode ''1234 AB'') [] []) = None
   \<and> httpDo (bodyWorld 200 ''[] garbage'')
        (postalCodeRequestURL (normalizePostalCode ''1234 AB'') [] []) =
       Inr \<lparr>StatusCode = 200, Body = ''[] garbage''\<rparr>
   \<and> jsonDecode (bodyWorld 200 ''[] garbage'') ''[] garbage'' = Inr []
   \<and> lookupByPostalCode (bodyWorld 200 ''[] garbage'') ''1234 AB'' [] [] = Inr []
   \<and> lookupByPostalCodeHandler (bodyWorld 200 ''[] garbage'')
        \<lparr>argPostalCode = ''1234 AB'', argHouseNumber = [], argHouseLetter = []\<rparr> =
       \<lparr>Content = [TextContent ''No addresses found for the given postal code.''],
        IsError = False\<rparr>
   \<and> httpDo (bodyWorld 200 ''null'')
        (coordinatesRequestURL exampleFmtFloat64 0x404A000000000000 0x4011333333333333) =
       Inr \<lparr>StatusCode = 200, Body = ''null''\<rparr>
   \<and> jsonDecode (bodyWorld 200 ''null'') ''null'' = Inr []
   \<and> lookupByCoordinates (bodyWorld 200 ''null'') 0x404A000000000000 0x4011333333333333 = Inr None
   \<and> lookupByCoordinatesHandler (bodyWorld 200 ''null'')
        \<lparr>argLatitude = 0x404A000000000000, argLongitude = 0x4011333333333333\<rparr> =
       \<lparr>Content = [TextContent ''No address found for the given coordinates.''],
        IsError = False\<rparr>"
proof -
  have a: "\<not> arrayDelimited ''[] garbage''" "\<not> arrayDelimited ''null''"
    by (simp_all add: arrayDelimited_def isSpace_def)
  have d: "decodeEmptyValue ''[] garbage'' = Some (Inr [])" "decodeEmptyValue ''null'' = Some (Inr [])"
    by (simp_all add: decodeEmptyValue_def isSpace_def)
  have w: "fmtFloat64 (bodyWorld status body) = exampleFmtFloat64"
    "httpNewRequest (bodyWorld status body) requestURL = None"
    "httpDo (bodyWorld status body) requestURL = Inr \<lparr>StatusCode = status, Body = body\<rparr>"
    "jsonDecode (bodyWorld status body) b =
       (case decodeEmptyValue b of Some result \<Rightarrow> result | None \<Rightarrow> Inl ''not described'')"
    for status body requestURL b
    by (simp_all add: bodyWorld_def)
  have p: "lookupByPostalCode (bodyWorld 200 ''[] garbage'') ''1234 AB'' [] [] = Inr []"
    by (simp add: lookupByPostalCode_def Let_def w d setPostalCodes_all withPostalCode_def)
  have c: "lookupByCoordinates (bodyWorld 200 ''null'') 0x404A000000000000 0x4011333333333333
      = Inr None"
    by (simp add: lookupByCoordinates_def Let_def w d)
  show ?thesis
    by (simp add: a w d lookupByPostalCodeHandler_def lookupByCoordinatesHandler_def p c)
qed

text \<open>
  Claim C8. For a postal-code lookup whose response (status 200) decodes to an empty list
  of addresses, the lookup succeeds with no address and the tool result is the message that
  no addresses were found: it is not marked as an error, and it is none of the results the
  handler gives for an error.
\<close>

theorem lookupByPostalCodeHandler_no_addresses:
  assumes "httpNewRequest w (postalCodeRequestURL (normalizePostalCode (argPostalCode args))
        (argHouseNumber args) (argHouseLetter args)) = None"
    and "httpDo w (postalCodeRequestURL (normalizePostalCode (argPostalCode args))
        (argHouseNumber args) (argHouseLetter args)) = Inr resp"
    and "StatusCode resp = 200"
    and "jsonDecode w (Body resp) = Inr []"
  shows "lookupByPostalCode w (argPostalCode args) (argHouseNumber args) (argHouseLetter args) = Inr []
       \<and> lookupByPostalCodeHandler w args =
           \<lparr>Content = [TextContent ''No addresses found for the given postal code.''],
            IsError = False\<rparr>
       \<and> \<not> IsError (lookupByPostalCodeHandler w args)
       \<and> (\<forall>err. lookupByPostalCodeHandler w args \<noteq>
             \<lparr>Content = [TextContent (''Error looking up postal code: '' @ errorString err)],
              IsError = True\<rparr>)"
proof -
  have l: "lookupByPostalCode w (argPostalCode args) (argHouseNumber args) (argHouseLetter args) = Inr []"
    using lookupByPostalCode_completed [OF assms(1,2)] assms(3,4)
    by (simp add: withPostalCode_def)
  then have h: "lookupByPostalCodeHandler w args =
           \<lparr>Content = [TextContent ''No addresses found for the given postal code.''],
            IsError = False\<rparr>"
    by (simp add: lookupByPostalCodeHandler_def)
  show ?thesis
    unfolding h using l by simp
qed

theorem lookupByPostalCodeHandler_no_addresses_witness:
  "requestPath (postalCodeRequestURL (normalizePostalCode ''1234 AB'') [] []) = ''/1234AB''
   \<and> lookupByPostalCodeHandler (exampleWorld 200 (Inr []))
        \<lparr>argPostalCode = ''1234 AB'', argHouseNumber = [], argHouseLetter = []\<rparr> =
      \<lparr>Content = [TextContent ''No addresses found for the given postal code.''], IsError = False\<rparr>"
  using lookupByPostalCodeHandler_no_addresses
      [of "exampleWorld 200 (Inr [])"
          "\<lparr>argPostalCode = ''1234 AB'', argHouseNumber = [], argHouseLetter = []\<rparr>"
          "\<lparr>StatusCode = 200, Body = ''...''\<rparr>"]
  by (simp add: exampleWorld_simps requestPath_def postalCodeRequestURL_def baseURL_def
      normalizePostalCode_def ReplaceAll_space)

section \<open>Request paths\<close>












section \<open>The lines of a formatted address\<close>

lemma suffix_newline_line: "suffix ''\<newline>'' (label @ text @ ''\<newline>'')"
  by (intro suffix_appendI) simp

lemma suffix_newline_line2: "suffix ''\<newline>'' (label @ a @ sep @ b @ ''\<newline>'')"
  by (intro suffix_appendI) simp

lemma formatAddressWrites_snoc:
  "\<exists>lines. formatAddressWrites fmtFloat addr = lines @ [''\<newline>'']
     \<and> lines \<noteq> [] \<and> suffix ''\<newline>'' (last lines)"
proof -
  let ?fixed = "[''  Street: '' @ Street addr @ ''\<newline>'',
      ''  House Number: '' @ houseNumberFull addr @ ''\<newline>'',
      ''  Postal Code: '' @ PostalCode addr @ ''\<newline>'',
      ''  City: '' @ City addr @ ''\<newline>'']"
  let ?area = "(if Area addr \<noteq> 0
        then [''  Area: '' @ Itoa (Area addr) @ '' m'' @ [CHR 0xC2, CHR 0xB2] @ ''\<newline>'']
        else [])"
  let ?usage = "(if length (UsagePurposes addr) > 0
        then [''  Usage Purposes: '' @ Join (UsagePurposes addr) '', '' @ ''\<newline>'']
        else [])"
  let ?year = "(if BuildYear addr \<noteq> 0
        then [''  Build Year: '' @ Itoa (BuildYear addr) @ ''\<newline>'']
        else [])"
  let ?wgs = "(if float64_neq_zero (Latitude addr) \<and> float64_neq_zero (Longitude addr)
        then [''  Coordinates (WGS84): '' @ fmtFloat (Latitude addr) @ '', ''
                @ fmtFloat (Longitude addr) @ ''\<newline>'']
        else [])"
  let ?grid = "(if X addr \<noteq> [] \<and> Y addr \<noteq> []
        then [''  Coordinates (Dutch Grid): '' @ X addr @ '', '' @ Y addr @ ''\<newline>'']
        else [])"
  let ?lines = "?fixed @ ?area @ ?usage @ ?year @ ?wgs @ ?grid"
  have w: "formatAddressWrites fmtFloat addr = ?lines @ [''\<newline>'']"
    unfolding formatAddressWrites_def by (simp only: append_assoc)
  have all: "\<forall>l \<in> set ?lines. suffix ''\<newline>'' l"
    unfolding set_append ball_Un
    by (intro conjI)
      (simp_all only: set_simps ball_simps suffix_newline_line suffix_newline_line2
        split: if_splits,
       simp_all only: ball_simps simp_thms suffix_newline_line suffix_newline_line2
        set_simps if_True if_False)
  have ne: "?lines \<noteq> []"
    by simp
  then have "last ?lines \<in> set ?lines"
    by (rule last_in_set)
  with all have "suffix ''\<newline>'' (last ?lines)"
    by (rule bspec)
  with w ne show ?thesis
    by blast
qed

lemma formatAddress_ends_with_blank_line:
  "suffix ''\<newline>\<newline>'' (formatAddress fmtFloat addr)"
proof -
  obtain lines where w: "formatAddressWrites fmtFloat addr = lines @ [''\<newline>'']"
    and ne: "lines \<noteq> []" and nl: "suffix ''\<newline>'' (last lines)"
    using formatAddressWrites_snoc by blast
  from nl obtain p where p: "last lines = p @ ''\<newline>''"
    by (auto simp: suffix_def)
  have "concat lines = concat (butlast lines) @ last lines"
    using ne by (metis append_butlast_last_id concat_append concat.simps(2) concat.simps(1) append_Nil2)
  then have "formatAddress fmtFloat addr = (concat (butlast lines) @ p) @ ''\<newline>\<newline>''"
    by (simp add: formatAddress_def w p)
  then show ?thesis
    unfolding suffix_def by blast
qed

lemma emitsLine_formatAddressWrites:
  "emitsLine ''  Area: '' (formatAddressWrites fmtFloat addr) = (Area addr \<noteq> 0)"
  "emitsLine ''  Usage Purposes: '' (formatAddressWrites fmtFloat addr) = (UsagePurposes addr \<noteq> [])"
  "emitsLine ''  Build Year: '' (formatAddressWrites fmtFloat addr) = (BuildYear addr \<noteq> 0)"
  by (simp_all add: emitsLine_def formatAddressWrites_def)

lemma houseNumberFull_eq:
  "houseNumberFull addr =
     Itoa (HouseNumber addr) @ HouseLetter addr
       @ (if HouseSuffix addr = [] then [] else ''-'' @ HouseSuffix addr)"
  by (simp add: houseNumberFull_def Let_def)

text \<open>
  Claim C6. Formatting is a total function of the address (and of the rendering of floats,
  which it only uses for the coordinates): it has no error result, and equal addresses give
  equal texts. The first four lines written are always the street, the composed house
  number (the number, the letter, and the suffix after a hyphen when there is one), the
  postal code and the city. The area line is written exactly when the area is not \<open>0\<close>,
  the usage purposes line exactly when the list is not empty, the build year line exactly
  when the year is not \<open>0\<close>. The last string written is a lone newline, after a line that
  ends with a newline: the text ends with a blank line.
\<close>

theorem formatAddress_lines:
  "formatAddress fmtFloat addr = concat (formatAddressWrites fmtFloat addr)
   \<and> take 4 (formatAddressWrites fmtFloat addr) =
       [''  Street: '' @ Street addr @ ''\<newline>'',
        ''  House Number: '' @ Itoa (HouseNumber addr) @ HouseLetter addr
           @ (if HouseSuffix addr = [] then [] else ''-'' @ HouseSuffix addr) @ ''\<newline>'',
        ''  Postal Code: '' @ PostalCode addr @ ''\<newline>'',
        ''  City: '' @ City addr @ ''\<newline>'']
   \<and> emitsLine ''  Area: '' (formatAddressWrites fmtFloat addr) = (Area addr \<noteq> 0)
   \<and> emitsLine ''  Usage Purposes: '' (formatAddressWrites fmtFloat addr) = (UsagePurposes addr \<noteq> [])
   \<and> emitsLine ''  Build Year: '' (formatAddressWrites fmtFloat addr) = (BuildYear addr \<noteq> 0)
   \<and> last (formatAddressWrites fmtFloat addr) = ''\<newline>''
   \<and> suffix ''\<newline>\<newline>'' (formatAddress fmtFloat addr)"
proof (intro conjI)
  show "formatAddress fmtFloat addr = concat (formatAddressWrites fmtFloat addr)"
    by (rule formatAddress_def)
  show "take 4 (formatAddressWrites fmtFloat addr) =
       [''  Street: '' @ Street addr @ ''\<newline>'',
        ''  House Number: '' @ Itoa (HouseNumber addr) @ HouseLetter addr
           @ (if HouseSuffix addr = [] then [] else ''-'' @ HouseSuffix addr) @ ''\<newline>'',
        ''  Postal Code: '' @ PostalCode addr @ ''\<newline>'',
        ''  City: '' @ City addr @ ''\<newline>'']"
    by (simp add: formatAddressWrites_def houseNumberFull_eq)
  show "last (formatAddressWrites fmtFloat addr) = ''\<newline>''"
    by (simp add: formatAddressWrites_def)
qed (rule emitsLine_formatAddressWrites formatAddress_ends_with_blank_line)+

theorem formatAddress_lines_witness:
  "Area exampleAddress = 0 \<and> BuildYear exampleAddress = 0 \<and> UsagePurposes exampleAddress = []
   \<and> formatAddress exampleFmtFloat64 exampleAddress =
       ''  Street: Binnenhof\<newline>  House Number: 1A\<newline>  Postal Code: 2513 AA\<newline>  City: Den Haag\<newline>  Coordinates (WGS84): 52, 4.3\<newline>\<newline>''
   \<and> \<not> emitsLine ''  Area: '' (formatAddressWrites exampleFmtFloat64 exampleAddress)
   \<and> \<not> emitsLine ''  Usage Purposes: '' (formatAddressWrites exampleFmtFloat64 exampleAddress)
   \<and> \<not> emitsLine ''  Build Year: '' (formatAddressWrites exampleFmtFloat64 exampleAddress)"
  using formatAddress_lines [of exampleFmtFloat64 exampleAddress]
  by (simp add: formatAddress_exampleAddress) (simp add: exampleAddress_def)

text \<open>
  Claim C7, as the code has it. The line of the WGS84 coordinates is written exactly when
  the latitude is not zero and the longitude is not zero: it is left out as soon as one of
  the two is zero, not only when both are.
\<close>

theorem formatAddress_wgs84_line:
  "emitsLine ''  Coordinates (WGS84): '' (formatAddressWrites fmtFloat addr) =
     (float64_neq_zero (Latitude addr) \<and> float64_neq_zero (Longitude addr))"
  by (simp add: emitsLine_def formatAddressWrites_def)

theorem formatAddress_wgs84_line_witness:
  "emitsLine ''  Coordinates (WGS84): '' (formatAddressWrites exampleFmtFloat64 exampleAddress)
   \<and> float64_neq_zero (Latitude exampleAddress) \<and> float64_neq_zero (Longitude exampleAddress)"
  using formatAddress_wgs84_line [of exampleFmtFloat64 exampleAddress]
  by (simp add: exampleAddress_def float64_neq_zero_def)

text \<open>
  The claim as the specification states it (the line is left out exactly when latitude and
  longitude are both zero) fails for an address with latitude \<open>0\<close> and longitude \<open>4.3\<close>:
  the pair is not \<open>(0, 0)\<close>, and no line of the WGS84 coordinates is written.
\<close>

theorem formatAddress_wgs84_line_counterexample:
  "Latitude otherAddress = 0 \<and> Longitude otherAddress = 0x4011333333333333
   \<and> (Latitude otherAddress, Longitude otherAddress) \<noteq> (0, 0)
   \<and> \<not> emitsLine ''  Coordinates (WGS84): '' (formatAddressWrites exampleFmtFloat64 otherAddress)
   \<and> formatAddress exampleFmtFloat64 otherAddress =
       ''  Street: Plein\<newline>  House Number: 23-2\<newline>  Postal Code: 2511CS\<newline>  City: Den Haag\<newline>  Area: 120 m''
       @ [CHR 0xC2, CHR 0xB2]
       @ ''\<newline>  Usage Purposes: woonfunctie, kantoorfunctie\<newline>  Build Year: 1930\<newline>  Coordinates (Dutch Grid): 81431, 455034\<newline>\<newline>''"
  by (simp add: otherAddress_def emitsLine_def formatAddress_def formatAddressWrites_def
      houseNumberFull_def Itoa_def digits.simps float64_neq_zero_def)

end
